theory Spec2Isabelle
  imports Complex_Main
begin

section \<open>DroneForce backend: flight-log parsing, validation and report hash\<close>

text \<open>
  A shallow embedding of \<^verbatim>\<open>validator/parser.py\<close>, \<^verbatim>\<open>validator/validator.py\<close> and of
  the hash computation of \<^verbatim>\<open>main.py\<close>.

  Numbers: Python's \<^verbatim>\<open>float\<close> is modelled by \<^typ>\<open>real\<close> (exact arithmetic, no
  rounding, no NaN, no infinities); \<^verbatim>\<open>math.cos\<close> and \<^verbatim>\<open>math.radians\<close> are the real
  cosine and the multiplication by \<open>pi / 180\<close>. A division whose divisor is zero raises
  \<^verbatim>\<open>ZeroDivisionError\<close> in Python and is a branch of the model.

  Dictionaries with a fixed set of keys (a GPS point, the flight data, the bounds, the
  validation details, the task document) are records whose fields carry the keys' names.
  Where two dictionaries share a key, the fields are told apart by the record's name
  (\<open>location.lat\<close> and \<open>gps_point.lat\<close>).
\<close>

subsection \<open>Errors\<close>

datatype error =
    FileNotFoundError string
  | ValueError string
  | ZeroDivisionError

subsection \<open>Decoded log messages\<close>

text \<open>
  \<^verbatim>\<open>DFReader_binary\<close> (pymavlink) is outside the repository: the model takes the finite
  stream of messages that \<^verbatim>\<open>recv_match()\<close> hands out before it returns \<^verbatim>\<open>None\<close>. The
  parser reads \<^verbatim>\<open>get_type()\<close>, and then \<^verbatim>\<open>Status, Lat, Lng, Alt, _timestamp\<close> of a GPS
  message and \<^verbatim>\<open>Name, Value\<close> of a PARM message; every other message type is \<open>Other\<close>.
  The type of a parameter's value is left open.
\<close>

datatype 'v msg =
    GPS int real real real real
  | PARM string 'v
  | Other

subsection \<open>The dictionaries of the program\<close>

record location =
  lat :: real
  lng :: real

record gps_point =
  lat :: real
  lng :: real
  alt :: real
  timestamp :: real

record geo_bounds =
  min_lat :: real
  max_lat :: real
  min_lng :: real
  max_lng :: real

record 'v flight_data =
  gps_points :: "gps_point list"
  start_time :: "real option"
  end_time :: "real option"
  duration :: real
  max_altitude :: real
  avg_altitude :: real
  operator_pubkey :: "'v option"

record task_spec =
  location :: location
  area_size :: real
  altitude :: real
  duration :: real
  geofencing_enabled :: bool

record LogParser =
  log_path :: string

record 'v FlightValidator =
  flight_data :: "'v flight_data"
  center_location :: location
  area_size :: real
  max_altitude :: real
  min_duration :: real
  geofencing_enabled :: bool
  bounds :: geo_bounds

record validation_details =
  duration_valid :: bool
  altitude_valid :: bool
  geofence_valid :: bool
  overall_valid :: bool

subsection \<open>\<^verbatim>\<open>LogParser\<close>\<close>

text \<open>\<^verbatim>\<open>str.endswith\<close>.\<close>

definition endswith :: "string \<Rightarrow> string \<Rightarrow> bool" where
  "endswith s suf = (length suf \<le> length s \<and> drop (length s - length suf) s = suf)"

text \<open>
  \<^verbatim>\<open>LogParser.__init__\<close>: \<open>path_exists\<close> is \<^verbatim>\<open>os.path.exists\<close>, the state of the
  file system.
\<close>

definition LogParser_init :: "(string \<Rightarrow> bool) \<Rightarrow> string \<Rightarrow> error + LogParser" where
  "LogParser_init path_exists p =
     (if \<not> path_exists p then Inl (FileNotFoundError (''Log file not found at '' @ p))
      else if \<not> endswith p ''.bin''
        then Inl (ValueError (''Unsupported log format. Expected .bin file, got '' @ p))
      else Inr \<lparr>log_path = p\<rparr>)"

text \<open>
  The message loop of \<^verbatim>\<open>parse\<close>, one equation per branch; the four arguments after the
  stream are the local variables \<^verbatim>\<open>gps_points, altitudes, timestamps, operator_pubkey\<close>.
\<close>

fun process_messages ::
  "'v msg list \<Rightarrow> gps_point list \<Rightarrow> real list \<Rightarrow> real list \<Rightarrow> 'v option
     \<Rightarrow> gps_point list \<times> real list \<times> real list \<times> 'v option" where
  "process_messages [] gps alts ts opk = (gps, alts, ts, opk)"
| "process_messages (GPS st la lo al t # ms) gps alts ts opk =
     (if st \<ge> 3
      then process_messages ms
             (gps @ [\<lparr>lat = la / 10000000, lng = lo / 10000000, alt = al / 100, timestamp = t\<rparr>])
             (alts @ [al / 100]) (ts @ [t]) opk
      else process_messages ms gps alts ts opk)"
| "process_messages (PARM n v # ms) gps alts ts opk =
     (if n = ''OPERATOR_PUBKEY''
      then process_messages ms gps alts ts (Some v)
      else process_messages ms gps alts ts opk)"
| "process_messages (Other # ms) gps alts ts opk = process_messages ms gps alts ts opk"

text \<open>
  \<^verbatim>\<open>min\<close> and \<^verbatim>\<open>max\<close> of a list are only called on the branch where the list is not
  empty: they are the loops that start from the first element and keep the smaller
  (larger) one.
\<close>

definition py_min :: "real \<Rightarrow> real list \<Rightarrow> real" where
  "py_min x xs = foldl (\<lambda>m y. if y < m then y else m) x xs"

definition py_max :: "real \<Rightarrow> real list \<Rightarrow> real" where
  "py_max x xs = foldl (\<lambda>m y. if y > m then y else m) x xs"

text \<open>
  Truth value of \<^verbatim>\<open>start_time\<close> and \<^verbatim>\<open>end_time\<close> in
  \<^verbatim>\<open>if start_time and end_time\<close>: \<^verbatim>\<open>None\<close> is false, and so is the number zero.
\<close>

fun truthy :: "real option \<Rightarrow> bool" where
  "truthy None = False"
| "truthy (Some x) = (x \<noteq> 0)"

text \<open>The derived data of \<^verbatim>\<open>parse\<close>, after the emptiness check.\<close>

definition derive_duration :: "real option \<Rightarrow> real option \<Rightarrow> real" where
  "derive_duration st en =
     (case (st, en) of
        (Some s, Some e) \<Rightarrow> (if truthy st \<and> truthy en then e - s else 0)
      | _ \<Rightarrow> 0)"

definition parse :: "(string \<Rightarrow> 'v msg list) \<Rightarrow> LogParser \<Rightarrow> error + 'v flight_data" where
  "parse DFReader_binary self =
     (case process_messages (DFReader_binary (log_path self)) [] [] [] None of
        (gps, altitudes, timestamps, opk) \<Rightarrow>
          if gps = [] then Inl (ValueError ''No valid GPS points found in log file'')
          else
            let st = (case timestamps of [] \<Rightarrow> None | t # ts \<Rightarrow> Some (py_min t ts));
                en = (case timestamps of [] \<Rightarrow> None | t # ts \<Rightarrow> Some (py_max t ts))
            in Inr \<lparr>gps_points = gps,
                    start_time = st,
                    end_time = en,
                    flight_data.duration = derive_duration st en,
                    flight_data.max_altitude =
                      (case altitudes of [] \<Rightarrow> 0 | a # as \<Rightarrow> py_max a as),
                    avg_altitude =
                      (case altitudes of [] \<Rightarrow> 0
                       | a # as \<Rightarrow> sum_list altitudes / real (length altitudes)),
                    operator_pubkey = opk\<rparr>)"

subsection \<open>\<^verbatim>\<open>FlightValidator\<close>\<close>

definition radians :: "real \<Rightarrow> real" where
  "radians x = x * pi / 180"

text \<open>
  \<^verbatim>\<open>FlightValidator.__init__\<close>. The only division whose divisor depends on the input
  is the one of \<^verbatim>\<open>lng_offset\<close>. The divisor is zero exactly when the cosine of the center
  latitude is zero: in exact arithmetic that is at 90 degrees plus a multiple of 180,
  where Python's division would raise. The floating-point cosine of the program is not
  zero at any floating-point latitude, so the program itself never raises there; the
  properties of the bounds are therefore stated for the centers whose cosine is not zero,
  where the model and the program take the same branch. Every latitude strictly between
  -90 and 90 degrees is such a center (\<open>cos_radians_nonzero\<close>).
\<close>

definition FlightValidator_init ::
  "'v flight_data \<Rightarrow> location \<Rightarrow> real \<Rightarrow> real \<Rightarrow> real \<Rightarrow> bool \<Rightarrow> error + 'v FlightValidator" where
  "FlightValidator_init fd loc a max_alt min_dur geo =
     (let lat_offset = (a / 2) / 111000;
          d = 111000 * cos (radians (location.lat loc))
      in if d = 0 then Inl ZeroDivisionError
         else
           let lng_offset = (a / 2) / d
           in Inr \<lparr>flight_data = fd,
                   center_location = loc,
                   FlightValidator.area_size = a,
                   FlightValidator.max_altitude = max_alt,
                   min_duration = min_dur,
                   FlightValidator.geofencing_enabled = geo,
                   bounds = \<lparr>min_lat = location.lat loc - lat_offset,
                             max_lat = location.lat loc + lat_offset,
                             min_lng = location.lng loc - lng_offset,
                             max_lng = location.lng loc + lng_offset\<rparr>\<rparr>)"

definition validate_duration :: "'v FlightValidator \<Rightarrow> bool" where
  "validate_duration self =
     (flight_data.duration (flight_data self) \<ge> min_duration self)"

definition validate_altitude :: "'v FlightValidator \<Rightarrow> bool" where
  "validate_altitude self =
     (flight_data.max_altitude (flight_data self) \<le> FlightValidator.max_altitude self)"

text \<open>The loop of \<^verbatim>\<open>_validate_geofence\<close>: it returns at the first point out of bounds.\<close>

fun geofence_loop :: "geo_bounds \<Rightarrow> gps_point list \<Rightarrow> bool" where
  "geofence_loop b [] = True"
| "geofence_loop b (point # points) =
     (if gps_point.lat point < min_lat b \<or> gps_point.lat point > max_lat b
         \<or> gps_point.lng point < min_lng b \<or> gps_point.lng point > max_lng b
      then False
      else geofence_loop b points)"

definition validate_geofence :: "'v FlightValidator \<Rightarrow> bool" where
  "validate_geofence self = geofence_loop (bounds self) (gps_points (flight_data self))"

definition validate :: "'v FlightValidator \<Rightarrow> bool" where
  "validate self =
     (let dv = validate_duration self;
          av = validate_altitude self;
          gv = (if FlightValidator.geofencing_enabled self then validate_geofence self else True)
      in dv \<and> av \<and> gv)"

definition get_validation_details :: "'v FlightValidator \<Rightarrow> validation_details" where
  "get_validation_details self =
     (let dv = validate_duration self;
          av = validate_altitude self;
          gv = (if FlightValidator.geofencing_enabled self then validate_geofence self else True)
      in \<lparr>duration_valid = dv,
          altitude_valid = av,
          geofence_valid = gv,
          overall_valid = (dv \<and> av \<and> gv)\<rparr>)"

subsection \<open>The report hash of \<^verbatim>\<open>process_drone_log\<close>\<close>

text \<open>
  The values of the dictionary handed to \<^verbatim>\<open>json.dumps\<close>, and the dictionary itself as
  the list of its items in insertion order.
\<close>

datatype param = Location location | Number real | Flag bool

definition verification_params :: "task_spec \<Rightarrow> (string \<times> param) list" where
  "verification_params ts =
     [(''location'', Location (task_spec.location ts)),
      (''area_size'', Number (task_spec.area_size ts)),
      (''altitude'', Number (task_spec.altitude ts)),
      (''duration'', Number (task_spec.duration ts)),
      (''geofencing_enabled'', Flag (task_spec.geofencing_enabled ts))]"

text \<open>\<^verbatim>\<open>str\<close> of a \<^verbatim>\<open>bool\<close>.\<close>

definition str_bool :: "bool \<Rightarrow> string" where
  "str_bool b = (if b then ''True'' else ''False'')"

text \<open>
  Lines 83 to 97 of \<^verbatim>\<open>main.py\<close>. \<^verbatim>\<open>json.dumps\<close> and
  \<^verbatim>\<open>hashlib.sha256(...).hexdigest()\<close> are library functions and parameters of the
  model; byte strings and (ASCII) text are both \<^typ>\<open>string\<close>, so \<^verbatim>\<open>.encode()\<close> is the
  identity.
\<close>

definition verification_data ::
  "((string \<times> param) list \<Rightarrow> string) \<Rightarrow> string \<Rightarrow> task_spec \<Rightarrow> bool \<Rightarrow> string" where
  "verification_data json_dumps log_content ts verification_result =
     log_content @ json_dumps (verification_params ts) @ str_bool verification_result"

definition verification_report_hash ::
  "(string \<Rightarrow> string) \<Rightarrow> ((string \<times> param) list \<Rightarrow> string) \<Rightarrow> string \<Rightarrow> task_spec \<Rightarrow> bool
     \<Rightarrow> string" where
  "verification_report_hash sha256_hexdigest json_dumps log_content ts verification_result =
     sha256_hexdigest (verification_data json_dumps log_content ts verification_result)"

subsection \<open>Parsing and validating, as \<^verbatim>\<open>process_drone_log\<close> chains them\<close>

text \<open>
  Lines 66 to 79 of \<^verbatim>\<open>main.py\<close>: the parser is built and run, the validator is built
  from the parsed log and the task document, and \<^verbatim>\<open>validate\<close> gives the result.
\<close>

definition parse_log ::
  "(string \<Rightarrow> bool) \<Rightarrow> (string \<Rightarrow> 'v msg list) \<Rightarrow> string \<Rightarrow> error + 'v flight_data" where
  "parse_log path_exists DFReader_binary p =
     (case LogParser_init path_exists p of
        Inl e \<Rightarrow> Inl e
      | Inr parser \<Rightarrow> parse DFReader_binary parser)"

definition make_validator :: "'v flight_data \<Rightarrow> task_spec \<Rightarrow> error + 'v FlightValidator" where
  "make_validator parsed_log ts =
     FlightValidator_init parsed_log (task_spec.location ts) (task_spec.area_size ts)
       (task_spec.altitude ts) (task_spec.duration ts) (task_spec.geofencing_enabled ts)"

definition verify_log ::
  "(string \<Rightarrow> bool) \<Rightarrow> (string \<Rightarrow> 'v msg list) \<Rightarrow> string \<Rightarrow> task_spec \<Rightarrow> error + bool" where
  "verify_log path_exists DFReader_binary p ts =
     (case parse_log path_exists DFReader_binary p of
        Inl e \<Rightarrow> Inl e
      | Inr parsed_log \<Rightarrow>
          (case make_validator parsed_log ts of
             Inl e \<Rightarrow> Inl e
           | Inr validator \<Rightarrow> Inr (validate validator)))"

subsection \<open>Notions used to state the properties\<close>

text \<open>
  The position samples a stream yields, in the words of the specification: a position
  fix whose fix quality is at least 3 becomes a sample, in arrival order, with its
  position divided by \<open>10^7\<close> and its altitude divided by 100; \<open>qualifies\<close> says which
  messages those are.
\<close>

fun captured :: "'v msg list \<Rightarrow> gps_point list" where
  "captured [] = []"
| "captured (GPS st la lo al t # ms) =
     (if st \<ge> 3
      then \<lparr>lat = la / 10000000, lng = lo / 10000000, alt = al / 100, timestamp = t\<rparr> # captured ms
      else captured ms)"
| "captured (PARM n v # ms) = captured ms"
| "captured (Other # ms) = captured ms"

fun qualifies :: "'v msg \<Rightarrow> bool" where
  "qualifies (GPS st la lo al t) = (st \<ge> 3)"
| "qualifies (PARM n v) = False"
| "qualifies Other = False"

subsection \<open>The inputs of Scenario A\<close>

text \<open>
  Three fixes within 0.0004 degrees of the center (10, 20), altitudes 10, 20 and 15 m,
  timestamps 0, 30 and 61 s; the task of Scenario A; and the flight data that \<open>parse\<close>
  computes from the three fixes.
\<close>

definition scenario_A_log :: "unit msg list" where
  "scenario_A_log =
     [GPS 3 100000000 200000000 1000 0,
      GPS 3 100004000 200004000 2000 30,
      GPS 3 99996000 199996000 1500 61]"

definition scenario_A_task :: task_spec where
  "scenario_A_task =
     \<lparr>location = \<lparr>location.lat = 10, location.lng = 20\<rparr>,
      task_spec.area_size = 100,
      altitude = 50,
      task_spec.duration = 60,
      task_spec.geofencing_enabled = True\<rparr>"

definition scenario_A_flight :: "unit flight_data" where
  "scenario_A_flight =
     \<lparr>gps_points =
        [\<lparr>lat = 10, lng = 20, alt = 10, timestamp = 0\<rparr>,
         \<lparr>lat = 100004 / 10000, lng = 200004 / 10000, alt = 20, timestamp = 30\<rparr>,
         \<lparr>lat = 99996 / 10000, lng = 199996 / 10000, alt = 15, timestamp = 61\<rparr>],
      start_time = Some 0,
      end_time = Some 61,
      flight_data.duration = 0,
      flight_data.max_altitude = 20,
      avg_altitude = 15,
      operator_pubkey = None\<rparr>"

subsection \<open>Further concrete inputs\<close>

text \<open>
  The validator that \<^verbatim>\<open>FlightValidator.__init__\<close> builds for Scenario A; a validator whose
  bounds are the unit square, with one fix on a corner of the square and one inside; a
  fix outside that square; and the flight data of Scenario A with another operator,
  average altitude, start time and end time.
\<close>

definition scenario_A_validator_obj :: "unit FlightValidator" where
  "scenario_A_validator_obj =
     \<lparr>flight_data = scenario_A_flight,
      center_location = \<lparr>location.lat = 10, location.lng = 20\<rparr>,
      FlightValidator.area_size = 100,
      FlightValidator.max_altitude = 50,
      min_duration = 60,
      FlightValidator.geofencing_enabled = True,
      bounds = \<lparr>min_lat = 10 - 50 / 111000,
                max_lat = 10 + 50 / 111000,
                min_lng = 20 - 50 / (111000 * cos (radians 10)),
                max_lng = 20 + 50 / (111000 * cos (radians 10))\<rparr>\<rparr>"

definition unit_square_validator :: "unit FlightValidator" where
  "unit_square_validator =
     \<lparr>flight_data =
        \<lparr>gps_points =
           [\<lparr>lat = 0, lng = 1, alt = 5, timestamp = 1\<rparr>,
            \<lparr>lat = 1 / 2, lng = 1 / 2, alt = 7, timestamp = 2\<rparr>],
         start_time = Some 1,
         end_time = Some 2,
         flight_data.duration = 1,
         flight_data.max_altitude = 7,
         avg_altitude = 6,
         operator_pubkey = None\<rparr>,
      center_location = \<lparr>location.lat = 1 / 2, location.lng = 1 / 2\<rparr>,
      FlightValidator.area_size = 111000,
      FlightValidator.max_altitude = 7,
      min_duration = 1,
      FlightValidator.geofencing_enabled = True,
      bounds = \<lparr>min_lat = 0, max_lat = 1, min_lng = 0, max_lng = 1\<rparr>\<rparr>"

definition stray_point :: gps_point where
  "stray_point = \<lparr>lat = 1 / 2, lng = 2, alt = 5, timestamp = 3\<rparr>"

definition relabelled_flight :: "string flight_data" where
  "relabelled_flight =
     \<lparr>gps_points = gps_points scenario_A_flight,
      start_time = Some 1000,
      end_time = Some 1000,
      flight_data.duration = 0,
      flight_data.max_altitude = 20,
      avg_altitude = 0,
      operator_pubkey = Some ''operator-2''\<rparr>"

section \<open>Properties\<close>

subsection \<open>The message loop and the derived data\<close>

lemma process_messages_captured:
  "process_messages ms g a t k =
     (g @ captured ms, a @ map alt (captured ms), t @ map timestamp (captured ms),
      snd (snd (snd (process_messages ms g a t k))))"
  by (induction ms g a t k rule: process_messages.induct) simp_all

lemma captured_empty_iff: "captured ms = [] \<longleftrightarrow> (\<forall>m\<in>set ms. \<not> qualifies m)"
proof (induction ms)
  case Nil
  show ?case by simp
next
  case (Cons m ms)
  then show ?case by (cases m) simp_all
qed

lemma py_min_Min: "py_min x xs = Min (set (x # xs))"
proof -
  have "(\<lambda>m y. if y < m then y else m) = (\<lambda>m y::real. min y m)"
    by (intro ext) (simp add: min_def)
  then have "py_min x xs = fold min xs x"
    by (simp add: py_min_def foldl_conv_fold)
  then show ?thesis using Min.set_eq_fold [of x xs] by simp
qed

lemma py_max_Max: "py_max x xs = Max (set (x # xs))"
proof -
  have "(\<lambda>m y. if y > m then y else m) = (\<lambda>m y::real. max y m)"
    by (intro ext) (simp add: max_def)
  then have "py_max x xs = fold max xs x"
    by (simp add: py_max_def foldl_conv_fold)
  then show ?thesis using Max.set_eq_fold [of x xs] by simp
qed

lemma parse_summary:
  assumes "captured (rd (log_path self)) \<noteq> []"
  shows "\<exists>fd. parse rd self = Inr fd
     \<and> gps_points fd = captured (rd (log_path self))
     \<and> start_time fd = Some (Min (set (map timestamp (captured (rd (log_path self))))))
     \<and> end_time fd = Some (Max (set (map timestamp (captured (rd (log_path self))))))
     \<and> flight_data.max_altitude fd = Max (set (map alt (captured (rd (log_path self)))))
     \<and> avg_altitude fd = sum_list (map alt (captured (rd (log_path self))))
                            / real (length (captured (rd (log_path self))))
     \<and> flight_data.duration fd =
          derive_duration (start_time fd) (end_time fd)"
proof -
  obtain c cs where c: "captured (rd (log_path self)) = c # cs"
    using assms by (cases "captured (rd (log_path self))") auto
  have pm: "process_messages (rd (log_path self)) [] [] [] None =
     (c # cs, alt c # map alt cs, timestamp c # map timestamp cs,
      snd (snd (snd (process_messages (rd (log_path self)) [] [] [] None))))"
    using process_messages_captured [of "rd (log_path self)" "[]" "[]" "[]" None] c by simp
  show ?thesis
    unfolding parse_def
    by (subst pm) (simp add: c py_min_Min py_max_Max Let_def)
qed

lemma parse_error:
  assumes "captured (rd (log_path self)) = []"
  shows "parse rd self = Inl (ValueError ''No valid GPS points found in log file'')"
proof -
  have pm: "process_messages (rd (log_path self)) [] [] [] None =
     ([], [], [], snd (snd (snd (process_messages (rd (log_path self)) [] [] [] None))))"
    using process_messages_captured [of "rd (log_path self)" "[]" "[]" "[]" None] assms by simp
  show ?thesis
    unfolding parse_def by (subst pm) simp
qed

lemma geofence_loop_all:
  "geofence_loop b ps \<longleftrightarrow>
     (\<forall>p\<in>set ps. min_lat b \<le> gps_point.lat p \<and> gps_point.lat p \<le> max_lat b
        \<and> min_lng b \<le> gps_point.lng p \<and> gps_point.lng p \<le> max_lng b)"
  by (induction ps) (auto simp: not_less)

lemma derive_duration_nonzero:
  "s \<noteq> 0 \<Longrightarrow> e \<noteq> 0 \<Longrightarrow> derive_duration (Some s) (Some e) = e - s"
  by (simp add: derive_duration_def)

lemma derive_duration_zero_start: "derive_duration (Some 0) en = 0"
  by (simp add: derive_duration_def split: option.split)

subsection \<open>Scenario A\<close>

lemma cos_radians_10: "0 < cos (radians 10)" "cos (radians 10) \<le> 1"
proof -
  have "- (pi / 2) < radians 10" "radians 10 < pi / 2"
    using pi_gt_zero by (simp_all add: radians_def)
  then show "0 < cos (radians 10)" by (rule cos_gt_zero_pi)
  show "cos (radians 10) \<le> 1" by (rule cos_le_one)
qed

lemma lng_offset_lower:
  assumes "0 < c" "c \<le> 1"
  shows "(50::real) / 111000 \<le> 50 / (111000 * c)"
proof -
  have "111000 * c \<le> (111000::real)" using assms by simp
  moreover have "0 < 111000 * c" using assms by simp
  ultimately show ?thesis by (intro divide_left_mono) simp_all
qed

lemma scenario_A_inside:
  assumes "(50::real) / 111000 \<le> off"
  shows "geofence_loop
           \<lparr>min_lat = 10 - 50 / 111000, max_lat = 10 + 50 / 111000,
            min_lng = 20 - off, max_lng = 20 + off\<rparr>
           (gps_points scenario_A_flight)"
  using assms by (simp add: scenario_A_flight_def)

lemma scenario_A_parse:
  "parse_log (\<lambda>p. True) (\<lambda>p. scenario_A_log) ''logs/task1.bin'' = Inr scenario_A_flight"
  by (simp add: parse_log_def LogParser_init_def endswith_def parse_def scenario_A_log_def
      scenario_A_flight_def py_min_def py_max_def derive_duration_def)

lemma scenario_A_validator:
  "make_validator scenario_A_flight scenario_A_task =
     Inr \<lparr>flight_data = scenario_A_flight,
          center_location = \<lparr>location.lat = 10, location.lng = 20\<rparr>,
          FlightValidator.area_size = 100,
          FlightValidator.max_altitude = 50,
          min_duration = 60,
          FlightValidator.geofencing_enabled = True,
          bounds = \<lparr>min_lat = 10 - 50 / 111000,
                    max_lat = 10 + 50 / 111000,
                    min_lng = 20 - 50 / (111000 * cos (radians 10)),
                    max_lng = 20 + 50 / (111000 * cos (radians 10))\<rparr>\<rparr>"
  using cos_radians_10(1)
  by (simp add: make_validator_def FlightValidator_init_def scenario_A_task_def Let_def)

text \<open>
  Claim C1. Scenario A: the task with center (10, 20), area size 100, altitude ceiling
  50, minimum duration 60 and geofencing enabled, and the recording with three fixes
  near the center, altitudes 10, 20, 15 and timestamps 0, 30, 61. The specification
  expects a duration of 61 and an overall verdict of true. The code computes: start
  time 0, end time 61, but duration 0, because \<^verbatim>\<open>if start_time and end_time\<close> is false
  for the start time 0; the altitude and geofence checks pass, the duration check
  fails, and the verdict is false.
\<close>

theorem scenario_A_C1:
  "\<exists>fd self.
     parse_log (\<lambda>p. True) (\<lambda>p. scenario_A_log) ''logs/task1.bin'' = Inr fd
     \<and> make_validator fd scenario_A_task = Inr self
     \<and> end_time fd = Some 61 \<and> start_time fd = Some 0
     \<and> flight_data.duration fd = 0
     \<and> get_validation_details self =
         \<lparr>duration_valid = False, altitude_valid = True, geofence_valid = True,
          overall_valid = False\<rparr>
     \<and> verify_log (\<lambda>p. True) (\<lambda>p. scenario_A_log) ''logs/task1.bin'' scenario_A_task
         = Inr False"
proof -
  let ?off = "50 / (111000 * cos (radians 10))"
  let ?self = "\<lparr>flight_data = scenario_A_flight,
          center_location = \<lparr>location.lat = 10, location.lng = 20\<rparr>,
          FlightValidator.area_size = 100,
          FlightValidator.max_altitude = 50,
          min_duration = 60,
          FlightValidator.geofencing_enabled = True,
          bounds = \<lparr>min_lat = 10 - 50 / 111000,
                    max_lat = 10 + 50 / 111000,
                    min_lng = 20 - ?off,
                    max_lng = 20 + ?off\<rparr>\<rparr>"
  have off: "(50::real) / 111000 \<le> ?off"
    using cos_radians_10 by (rule lng_offset_lower)
  have geo: "validate_geofence ?self"
    using scenario_A_inside [OF off] by (simp add: validate_geofence_def)
  have dur: "\<not> validate_duration ?self"
    by (simp add: validate_duration_def scenario_A_flight_def)
  have alt: "validate_altitude ?self"
    by (simp add: validate_altitude_def scenario_A_flight_def)
  have det: "get_validation_details ?self =
         \<lparr>duration_valid = False, altitude_valid = True, geofence_valid = True,
          overall_valid = False\<rparr>"
    using geo dur alt by (simp add: get_validation_details_def)
  have val: "validate ?self = False"
    using dur by (simp add: validate_def)
  have ver: "verify_log (\<lambda>p. True) (\<lambda>p. scenario_A_log) ''logs/task1.bin'' scenario_A_task
         = Inr False"
    using val by (simp add: verify_log_def scenario_A_parse scenario_A_validator)
  have "end_time scenario_A_flight = Some 61" "start_time scenario_A_flight = Some 0"
    "flight_data.duration scenario_A_flight = 0"
    by (simp_all add: scenario_A_flight_def)
  with det ver scenario_A_parse scenario_A_validator show ?thesis by blast
qed

text \<open>
  Claim C2. \<open>parse\<close> is claimed to return \<open>duration = end_time - start_time\<close> for every
  recording with a qualifying fix. For two fixes at the timestamps 0 and 5 it returns
  start time 0, end time 5 and duration 0. (The other fields are as claimed, see
  \<open>parse_summary\<close>, and so is the duration when neither the first nor the last
  timestamp is zero, see \<open>derive_duration_nonzero\<close>.)
\<close>

theorem parse_duration_C2:
  "parse (\<lambda>p. [GPS 3 0 0 1000 0, GPS 3 0 0 1000 5 :: unit msg]) \<lparr>log_path = ''logs/t.bin''\<rparr> =
     Inr \<lparr>gps_points = [\<lparr>lat = 0, lng = 0, alt = 10, timestamp = 0\<rparr>,
                        \<lparr>lat = 0, lng = 0, alt = 10, timestamp = 5\<rparr>],
          start_time = Some 0,
          end_time = Some 5,
          flight_data.duration = 0,
          flight_data.max_altitude = 10,
          avg_altitude = 10,
          operator_pubkey = None\<rparr>"
  by (simp add: parse_def py_min_def py_max_def derive_duration_def)

subsection \<open>The report hash\<close>

text \<open>
  Claim C3. The report hash is the SHA-256 hex digest of the concatenation, in this order,
  of the raw log bytes, the JSON text of the task parameters and the string form of the
  verdict. The parameters are serialised from a dictionary whose keys are, in this order,
  location, area size, altitude, duration and geofencing flag; the verdict is written
  \<^verbatim>\<open>True\<close> or \<^verbatim>\<open>False\<close>. The hash is a function of the raw bytes, the task parameters and
  the verdict alone, so the same three inputs give the same digest.
\<close>

theorem report_hash_C3:
  "verification_report_hash sha256_hexdigest json_dumps log_content ts verification_result =
     sha256_hexdigest
       (log_content @ json_dumps (verification_params ts) @ str_bool verification_result)
   \<and> map fst (verification_params ts) =
       [''location'', ''area_size'', ''altitude'', ''duration'', ''geofencing_enabled'']
   \<and> map snd (verification_params ts) =
       [Location (task_spec.location ts), Number (task_spec.area_size ts),
        Number (task_spec.altitude ts), Number (task_spec.duration ts),
        Flag (task_spec.geofencing_enabled ts)]
   \<and> str_bool True = ''True'' \<and> str_bool False = ''False''"
  by (simp add: verification_report_hash_def verification_data_def verification_params_def
      str_bool_def)

subsection \<open>The checks of the validator\<close>

text \<open>
  Claim C4. The geofence result of the validation details is true when geofencing is
  disabled; otherwise it is true exactly when every GPS point lies in the closed
  rectangle of the bounds. The loop that returns at the first point out of bounds
  computes that universal quantification.
\<close>

theorem geofence_C4:
  "geofence_valid (get_validation_details self) =
     (if FlightValidator.geofencing_enabled self
      then (\<forall>p\<in>set (gps_points (flight_data self)).
              min_lat (bounds self) \<le> gps_point.lat p \<and> gps_point.lat p \<le> max_lat (bounds self)
              \<and> min_lng (bounds self) \<le> gps_point.lng p
              \<and> gps_point.lng p \<le> max_lng (bounds self))
      else True)
   \<and> validate_geofence self =
       (\<forall>p\<in>set (gps_points (flight_data self)).
              min_lat (bounds self) \<le> gps_point.lat p \<and> gps_point.lat p \<le> max_lat (bounds self)
              \<and> min_lng (bounds self) \<le> gps_point.lng p
              \<and> gps_point.lng p \<le> max_lng (bounds self))"
  by (simp add: get_validation_details_def validate_geofence_def geofence_loop_all Let_def)

text \<open>
  Witness for C4: a point on a corner of the bounds is inside; a point outside makes
  the check fail; with geofencing disabled the same point does not.
\<close>

theorem geofence_C4_witness:
  "geofence_valid (get_validation_details unit_square_validator)
   \<and> \<not> geofence_valid (get_validation_details
          (unit_square_validator\<lparr>flight_data :=
             (flight_data unit_square_validator)\<lparr>gps_points :=
                gps_points (flight_data unit_square_validator) @ [stray_point]\<rparr>\<rparr>))
   \<and> geofence_valid (get_validation_details
          (unit_square_validator\<lparr>FlightValidator.geofencing_enabled := False,
             flight_data :=
             (flight_data unit_square_validator)\<lparr>gps_points := [stray_point]\<rparr>\<rparr>))"
  using geofence_C4 [of unit_square_validator]
    geofence_C4 [of "unit_square_validator\<lparr>flight_data :=
             (flight_data unit_square_validator)\<lparr>gps_points :=
                gps_points (flight_data unit_square_validator) @ [stray_point]\<rparr>\<rparr>"]
    geofence_C4 [of "unit_square_validator\<lparr>FlightValidator.geofencing_enabled := False,
             flight_data :=
             (flight_data unit_square_validator)\<lparr>gps_points := [stray_point]\<rparr>\<rparr>"]
  by (simp add: unit_square_validator_def stray_point_def)

text \<open>
  Claim C6. \<open>validate\<close> returns the overall result of \<open>get_validation_details\<close>; the overall
  result is the conjunction of the three results in the details; and both entry points
  are built from the same three checks.
\<close>

theorem entry_points_agree_C6:
  "validate self = overall_valid (get_validation_details self)
   \<and> overall_valid (get_validation_details self) =
       (duration_valid (get_validation_details self)
        \<and> altitude_valid (get_validation_details self)
        \<and> geofence_valid (get_validation_details self))
   \<and> duration_valid (get_validation_details self) = validate_duration self
   \<and> altitude_valid (get_validation_details self) = validate_altitude self
   \<and> geofence_valid (get_validation_details self) =
       (if FlightValidator.geofencing_enabled self then validate_geofence self else True)
   \<and> validate self =
       (validate_duration self \<and> validate_altitude self
        \<and> (if FlightValidator.geofencing_enabled self then validate_geofence self else True))"
  by (simp add: validate_def get_validation_details_def Let_def)

text \<open>
  Claim C7. The duration check holds exactly when the flight's duration is at least the
  minimum duration, the altitude check exactly when the flight's maximum altitude is at
  most the ceiling; a flight whose duration equals the minimum, or whose maximum altitude
  equals the ceiling, passes.
\<close>

theorem duration_altitude_C7:
  "duration_valid (get_validation_details self) =
     (flight_data.duration (flight_data self) \<ge> min_duration self)
   \<and> altitude_valid (get_validation_details self) =
     (flight_data.max_altitude (flight_data self) \<le> FlightValidator.max_altitude self)
   \<and> duration_valid (get_validation_details
        (self\<lparr>min_duration := flight_data.duration (flight_data self)\<rparr>))
   \<and> altitude_valid (get_validation_details
        (self\<lparr>FlightValidator.max_altitude := flight_data.max_altitude (flight_data self)\<rparr>))"
  by (simp add: get_validation_details_def validate_duration_def validate_altitude_def Let_def)

text \<open>
  Claim C10. Two sets of flight data that agree on the duration, the maximum altitude
  and the GPS points give the same result of \<open>validate\<close> and the same validation details
  under every task (and the same error when the validator cannot be built), whatever
  their operator key, average altitude, start time and end time are.
\<close>

theorem verdict_independent_C10:
  assumes "flight_data.duration fd = flight_data.duration fd'"
    and "flight_data.max_altitude fd = flight_data.max_altitude fd'"
    and "gps_points fd = gps_points fd'"
  shows "map_sum id (\<lambda>self. (validate self, get_validation_details self))
           (FlightValidator_init fd loc a max_alt min_dur geo) =
         map_sum id (\<lambda>self. (validate self, get_validation_details self))
           (FlightValidator_init fd' loc a max_alt min_dur geo)"
  using assms
  by (simp add: FlightValidator_init_def validate_def get_validation_details_def
      validate_duration_def validate_altitude_def validate_geofence_def Let_def)

text \<open>
  Witness for C10: the flight data of Scenario A and the same flight with another
  operator key, average altitude, start time and end time.
\<close>

theorem verdict_independent_C10_witness:
  "map_sum id (\<lambda>self. (validate self, get_validation_details self))
     (FlightValidator_init scenario_A_flight \<lparr>location.lat = 10, location.lng = 20\<rparr>
        100 50 60 True) =
   map_sum id (\<lambda>self. (validate self, get_validation_details self))
     (FlightValidator_init relabelled_flight \<lparr>location.lat = 10, location.lng = 20\<rparr>
        100 50 60 True)"
  using verdict_independent_C10 [of scenario_A_flight relabelled_flight
      "\<lparr>location.lat = 10, location.lng = 20\<rparr>" 100 50 60 True]
  by (simp add: scenario_A_flight_def relabelled_flight_def)

subsection \<open>Rejected recordings\<close>

text \<open>
  Claim C5. Parsing fails, and returns no flight data, when the file does not exist, when
  its name does not end in \<^verbatim>\<open>.bin\<close>, and when no message of the recording is a GPS
  message with fix status 3 or more. The errors are the ones the code raises
  (\<^verbatim>\<open>FileNotFoundError\<close> and \<^verbatim>\<open>ValueError\<close>), which the specification calls ParseError.
\<close>

theorem parse_rejects_C5:
  "(\<not> path_exists p \<longrightarrow>
      parse_log path_exists rd p = Inl (FileNotFoundError (''Log file not found at '' @ p)))
   \<and> (path_exists p \<and> \<not> endswith p ''.bin'' \<longrightarrow>
      parse_log path_exists rd p =
        Inl (ValueError (''Unsupported log format. Expected .bin file, got '' @ p)))
   \<and> (path_exists p \<and> endswith p ''.bin'' \<and> (\<forall>m\<in>set (rd p). \<not> qualifies m) \<longrightarrow>
      parse_log path_exists rd p = Inl (ValueError ''No valid GPS points found in log file''))
   \<and> ((\<forall>m\<in>set (rd (log_path self)). \<not> qualifies m) \<longrightarrow>
      parse rd self = Inl (ValueError ''No valid GPS points found in log file''))"
proof -
  have none: "parse rd s = Inl (ValueError ''No valid GPS points found in log file'')"
    if "\<forall>m\<in>set (rd (log_path s)). \<not> qualifies m" for s
    using that by (intro parse_error) (simp add: captured_empty_iff)
  have "parse_log path_exists rd p = Inl (ValueError ''No valid GPS points found in log file'')"
    if "path_exists p" "endswith p ''.bin''" "\<forall>m\<in>set (rd p). \<not> qualifies m"
    using that none [of "\<lparr>log_path = p\<rparr>"] by (simp add: parse_log_def LogParser_init_def)
  then show ?thesis
    using none [of self] by (simp add: parse_log_def LogParser_init_def)
qed

text \<open>
  Witness for C5: a missing file, a file with another suffix, a recording whose only
  fix has status 2, and an empty recording.
\<close>

theorem parse_rejects_C5_witness:
  "parse_log (\<lambda>p. False) (\<lambda>p. scenario_A_log) ''logs/task1.bin'' =
     Inl (FileNotFoundError ''Log file not found at logs/task1.bin'')
   \<and> parse_log (\<lambda>p. True) (\<lambda>p. scenario_A_log) ''logs/task1.txt'' =
     Inl (ValueError ''Unsupported log format. Expected .bin file, got logs/task1.txt'')
   \<and> parse_log (\<lambda>p. True) (\<lambda>p. [GPS 2 100000000 200000000 1000 0, PARM ''OPERATOR_PUBKEY'' (), Other])
        ''logs/task1.bin'' =
     Inl (ValueError ''No valid GPS points found in log file'')
   \<and> parse (\<lambda>p. [] :: unit msg list) \<lparr>log_path = ''logs/task1.bin''\<rparr> =
     Inl (ValueError ''No valid GPS points found in log file'')"
  using parse_rejects_C5 [of "\<lambda>p. False" "''logs/task1.bin''" "\<lambda>p. scenario_A_log"]
    parse_rejects_C5 [of "\<lambda>p. True" "''logs/task1.txt''" "\<lambda>p. scenario_A_log"]
    parse_rejects_C5 [of "\<lambda>p. True" "''logs/task1.bin''"
      "\<lambda>p. [GPS 2 100000000 200000000 1000 0, PARM ''OPERATOR_PUBKEY'' (), Other]"]
    parse_rejects_C5 [of "\<lambda>p. True" "''logs/task1.bin''" "\<lambda>p. [] :: unit msg list"
      "\<lparr>log_path = ''logs/task1.bin''\<rparr>"]
  by (simp add: endswith_def)

subsection \<open>The bounding box\<close>

lemma cos_radians_nonzero:
  assumes "- 90 < x" and "x < 90"
  shows "cos (radians x) \<noteq> 0"
proof -
  have a: "- 90 * pi < x * pi"
    using assms(1) pi_gt_zero by (rule mult_strict_right_mono)
  have b: "x * pi < 90 * pi"
    using assms(2) pi_gt_zero by (rule mult_strict_right_mono)
  have "- (pi / 2) < radians x"
    using a by (simp add: radians_def)
  moreover have "radians x < pi / 2"
    using b by (simp add: radians_def)
  ultimately have "0 < cos (radians x)" by (rule cos_gt_zero_pi)
  then show ?thesis by simp
qed

text \<open>
  Claim C8. For every task whose center latitude has a cosine that is not zero (every
  latitude strictly between -90 and 90 degrees, among others), the validator is built,
  and its bounds are the center's latitude minus and plus \<open>(area_size / 2) / 111000\<close>
  and the center's longitude minus and plus
  \<open>(area_size / 2) / (111000 * cos (radians lat))\<close>.
\<close>

theorem bounds_C8:
  assumes "cos (radians (location.lat loc)) \<noteq> 0"
  shows "\<exists>self. FlightValidator_init fd loc a max_alt min_dur geo = Inr self
     \<and> min_lat (bounds self) = location.lat loc - (a / 2) / 111000
     \<and> max_lat (bounds self) = location.lat loc + (a / 2) / 111000
     \<and> min_lng (bounds self) =
         location.lng loc - (a / 2) / (111000 * cos (radians (location.lat loc)))
     \<and> max_lng (bounds self) =
         location.lng loc + (a / 2) / (111000 * cos (radians (location.lat loc)))"
  using assms by (simp add: FlightValidator_init_def Let_def)

text \<open>
  Witness for C8: the task of Scenario A, center (10, 20) and area size 100, and a task
  on the equator, center (0, 0) and area size 222000, whose bounds are the square from
  -1 to 1 degree.
\<close>

theorem bounds_C8_witness:
  "cos (radians 10) \<noteq> 0
   \<and> FlightValidator_init scenario_A_flight \<lparr>location.lat = 10, location.lng = 20\<rparr>
      100 50 60 True = Inr scenario_A_validator_obj
   \<and> min_lat (bounds scenario_A_validator_obj) = 10 - 50 / 111000
   \<and> max_lat (bounds scenario_A_validator_obj) = 10 + 50 / 111000
   \<and> min_lng (bounds scenario_A_validator_obj) = 20 - 50 / (111000 * cos (radians 10))
   \<and> max_lng (bounds scenario_A_validator_obj) = 20 + 50 / (111000 * cos (radians 10))
   \<and> bounds (projr (FlightValidator_init scenario_A_flight
         \<lparr>location.lat = 0, location.lng = 0\<rparr> 222000 50 60 True)) =
       \<lparr>min_lat = - 1, max_lat = 1, min_lng = - 1, max_lng = 1\<rparr>"
proof -
  have c10: "cos (radians 10) \<noteq> 0"
    by (rule cos_radians_nonzero) simp_all
  have c0: "cos (radians (location.lat \<lparr>location.lat = 0, location.lng = 0\<rparr>)) \<noteq> 0"
    by (simp add: radians_def)
  have v: "FlightValidator_init scenario_A_flight \<lparr>location.lat = 10, location.lng = 20\<rparr>
      100 50 60 True = Inr scenario_A_validator_obj"
    using c10 by (simp add: FlightValidator_init_def scenario_A_validator_obj_def Let_def)
  obtain s where s: "FlightValidator_init scenario_A_flight
         \<lparr>location.lat = 10, location.lng = 20\<rparr> 100 50 60 True = Inr s"
      "min_lat (bounds s) = 10 - 50 / 111000" "max_lat (bounds s) = 10 + 50 / 111000"
      "min_lng (bounds s) = 20 - 50 / (111000 * cos (radians 10))"
      "max_lng (bounds s) = 20 + 50 / (111000 * cos (radians 10))"
    using bounds_C8 [of "\<lparr>location.lat = 10, location.lng = 20\<rparr>" scenario_A_flight
        100 50 60 True] c10
    by auto
  from s(1) v have eq: "s = scenario_A_validator_obj" by simp
  obtain e where e: "FlightValidator_init scenario_A_flight
         \<lparr>location.lat = 0, location.lng = 0\<rparr> 222000 50 60 True = Inr e"
      "min_lat (bounds e) = - 1" "max_lat (bounds e) = 1"
      "min_lng (bounds e) = - 1" "max_lng (bounds e) = 1"
    using bounds_C8 [OF c0, of scenario_A_flight 222000 50 60 True]
    by (auto simp: radians_def)
  have "bounds e = \<lparr>min_lat = - 1, max_lat = 1, min_lng = - 1, max_lng = 1\<rparr>"
    using e(2-5) by (cases "bounds e") simp
  with e(1) s(2-5) v c10 show ?thesis by (simp add: eq [symmetric])
qed

lemma cos_radians_180: "cos (radians 180) = - 1"
  by (simp add: radians_def)

lemma cos_radians_360: "cos (radians 360) = 1"
proof -
  have "radians 360 = 2 * pi" by (simp add: radians_def)
  then show ?thesis by simp
qed

text \<open>
  Claim C9 says that a center latitude outside the range from -90 to 90 degrees is
  rejected before the bounds are computed. The code has no such check: for the center
  latitude 180 the validator is built, with a negative longitude offset and therefore
  \<open>max_lng < min_lng\<close>.
\<close>

theorem latitude_C9_counterexample:
  "FlightValidator_init scenario_A_flight \<lparr>location.lat = 180, location.lng = 20\<rparr>
      100 50 60 True =
     Inr \<lparr>flight_data = scenario_A_flight,
          center_location = \<lparr>location.lat = 180, location.lng = 20\<rparr>,
          FlightValidator.area_size = 100,
          FlightValidator.max_altitude = 50,
          min_duration = 60,
          FlightValidator.geofencing_enabled = True,
          bounds = \<lparr>min_lat = 180 - 50 / 111000,
                    max_lat = 180 + 50 / 111000,
                    min_lng = 20 + 50 / 111000,
                    max_lng = 20 - 50 / 111000\<rparr>\<rparr>"
  by (simp add: FlightValidator_init_def cos_radians_180 Let_def)

text \<open>
  Claim C9, amended. No range check is made on the center latitude: for a center
  latitude outside the range from -90 to 90 degrees whose cosine is not zero, the
  validator is built and its bounds follow the same formulas as for every other center.
\<close>

theorem latitude_unchecked_C9:
  assumes "location.lat loc < - 90 \<or> 90 < location.lat loc"
    and "cos (radians (location.lat loc)) \<noteq> 0"
  shows "FlightValidator_init fd loc a max_alt min_dur geo =
     Inr \<lparr>flight_data = fd,
          center_location = loc,
          FlightValidator.area_size = a,
          FlightValidator.max_altitude = max_alt,
          min_duration = min_dur,
          FlightValidator.geofencing_enabled = geo,
          bounds = \<lparr>min_lat = location.lat loc - (a / 2) / 111000,
                    max_lat = location.lat loc + (a / 2) / 111000,
                    min_lng = location.lng loc
                      - (a / 2) / (111000 * cos (radians (location.lat loc))),
                    max_lng = location.lng loc
                      + (a / 2) / (111000 * cos (radians (location.lat loc)))\<rparr>\<rparr>"
  using assms(2) by (simp add: FlightValidator_init_def Let_def)

text \<open>Witness for the amended C9: the center latitude 360 and the area size 222000.\<close>

theorem latitude_unchecked_C9_witness:
  "FlightValidator_init scenario_A_flight \<lparr>location.lat = 360, location.lng = 0\<rparr>
      222000 50 60 False =
     Inr \<lparr>flight_data = scenario_A_flight,
          center_location = \<lparr>location.lat = 360, location.lng = 0\<rparr>,
          FlightValidator.area_size = 222000,
          FlightValidator.max_altitude = 50,
          min_duration = 60,
          FlightValidator.geofencing_enabled = False,
          bounds = \<lparr>min_lat = 359, max_lat = 361, min_lng = - 1, max_lng = 1\<rparr>\<rparr>"
  using latitude_unchecked_C9 [of "\<lparr>location.lat = 360, location.lng = 0\<rparr>"
      scenario_A_flight 222000 50 60 False]
  by (simp add: cos_radians_360)

end
